theory Spec2Isabelle
  imports Complex_Main "HOL-Library.Word"
begin

section \<open>HTTP outcomes, database integers and sessions\<close>

text \<open>
  Every route handler of \<^verbatim>\<open>registerRoutes\<close> ends in \<^verbatim>\<open>res.json(...)\<close> or in
  \<^verbatim>\<open>res.status(n).json(...)\<close>. A handler is modelled as a function returning a
  \<open>response\<close>: \<open>Success v\<close> for the JSON body of a 200 answer, \<open>Failure n\<close> for the
  answer with HTTP status \<open>n\<close> (401, 403, 404, or 500 from the \<^verbatim>\<open>catch\<close> block).
\<close>

datatype 'a response = Success 'a | Failure nat

text \<open>
  The columns \<^verbatim>\<open>serial\<close> and \<^verbatim>\<open>integer\<close> of the schema hold signed 32-bit integers.
  \<^verbatim>\<open>parseInt\<close> yields an integral number or NaN. A number bound to an integer column, or
  compared with one in a \<^verbatim>\<open>where\<close>, must be such an integer: NaN and a value outside the
  32-bit range make the query throw (\<open>None\<close>).
\<close>

type_synonym int4 = "32 word"

datatype number = NaN | Num int

definition toInt4 :: "int \<Rightarrow> int4 option" where
  "toInt4 i = (if - (2 ^ 31) \<le> i \<and> i < 2 ^ 31 then Some (word_of_int i) else None)"

definition bindInt4 :: "number \<Rightarrow> int4 option" where
  "bindInt4 n = (case n of NaN \<Rightarrow> None | Num i \<Rightarrow> toInt4 i)"

text \<open>
  \<^verbatim>\<open>SessionData\<close>: both fields are optional. The login and signup routes set them to the
  \<^verbatim>\<open>id\<close> and \<^verbatim>\<open>role\<close> columns of a \<^verbatim>\<open>users\<close> row. \<^verbatim>\<open>!req.session?.userId\<close> is true
  for an absent user id and for the falsy number 0.
\<close>

record Session =
  userId :: "int4 option"
  role :: "string option"

definition authenticated :: "Session \<Rightarrow> bool" where
  "authenticated s = (case userId s of None \<Rightarrow> False | Some u \<Rightarrow> u \<noteq> 0)"

text \<open>The middleware: \<open>None\<close> stands for the call of \<^verbatim>\<open>next()\<close>.\<close>

definition requireAuth :: "Session \<Rightarrow> nat option" where
  "requireAuth s = (if \<not> authenticated s then Some 401 else None)"

definition requireRole :: "string \<Rightarrow> Session \<Rightarrow> nat option" where
  "requireRole r s =
     (if \<not> authenticated s then Some 401
      else if role s \<noteq> Some r then Some 403
      else None)"

section \<open>Diagnosis risk scoring (POST /api/diagnosis/calculate)\<close>

text \<open>
  \<^verbatim>\<open>diagnosisSchema\<close>: the cancer type is one of three literals, tumour size and the first
  biomarker are numbers, the two categorical fields are optional nullable strings
  (\<open>None\<close> stands for both \<^verbatim>\<open>undefined\<close> and \<^verbatim>\<open>null\<close>; neither equals a string literal).
  The schema admits no NaN. JavaScript numbers are binary64; here they are real numbers and
  the arithmetic is exact. Bounds, order and the tier of the result do not depend on the
  difference. The exact integer returned can: the handler's product \<^verbatim>\<open>42.5 * 1.4\<close> is just
  below 59.5 and rounds to 59, the exact product is 59.5 and rounds to 60. No property
  proved below fixes the integer returned for all inputs; the values computed for the
  examples lie away from a half-integer.
\<close>

datatype CancerType = liver | lung | breast

record DiagnosisInput =
  cancerType :: CancerType
  tumorSize :: real
  biomarker1 :: real
  biomarker2 :: "string option"
  additionalFactor :: "string option"

text \<open>The one constraint of the schema that the types do not carry: \<^verbatim>\<open>z.number().positive()\<close>.\<close>

definition diagnosisSchema :: "DiagnosisInput \<Rightarrow> bool" where
  "diagnosisSchema data = (0 < tumorSize data)"

text \<open>\<^verbatim>\<open>Math.round\<close> rounds to the nearest integer, a tie going up.\<close>

definition Math_round :: "real \<Rightarrow> int" where
  "Math_round x = \<lfloor>x + 1 / 2\<rfloor>"

text \<open>The \<^verbatim>\<open>switch\<close> over the cancer type: the value of \<^verbatim>\<open>probability\<close> before rounding.\<close>

definition smokingMultiplier :: "string option \<Rightarrow> real" where
  "smokingMultiplier f =
     (if f = Some ''current'' then 1.8 else if f = Some ''former'' then 1.3 else 1)"

definition her2Multiplier :: "string option \<Rightarrow> real" where
  "her2Multiplier b = (if b = Some ''positive'' then 1.4 else 1)"

definition switchProbability :: "DiagnosisInput \<Rightarrow> real" where
  "switchProbability data =
     (case cancerType data of
        liver \<Rightarrow>
          (if biomarker1 data > 400 then 75 + min (tumorSize data * 3) 20
           else if biomarker1 data > 20 then 45 + min (tumorSize data * 2) 25
           else 15 + min (tumorSize data) 15)
      | lung \<Rightarrow>
          (if biomarker1 data > 10
             then (60 + min (tumorSize data * 4) 25) * smokingMultiplier (additionalFactor data)
           else if biomarker1 data > 5
             then (35 + min (tumorSize data * 3) 20) * smokingMultiplier (additionalFactor data)
           else (10 + min (tumorSize data * 2) 15) * smokingMultiplier (additionalFactor data))
      | breast \<Rightarrow>
          (if biomarker1 data > 100
             then (70 + min (tumorSize data * 3) 20) * her2Multiplier (biomarker2 data)
           else if biomarker1 data > 30
             then (40 + min (tumorSize data * 2) 25) * her2Multiplier (biomarker2 data)
           else (12 + min (tumorSize data) 15) * her2Multiplier (biomarker2 data)))"

text \<open>Cap at 98: \<^verbatim>\<open>Math.min(Math.round(probability), 98)\<close>.\<close>

definition cappedProbability :: "DiagnosisInput \<Rightarrow> int" where
  "cappedProbability data = min (Math_round (switchProbability data)) 98"

definition cancerTypeName :: "CancerType \<Rightarrow> string" where
  "cancerTypeName c = (case c of liver \<Rightarrow> ''liver'' | lung \<Rightarrow> ''lung'' | breast \<Rightarrow> ''breast'')"

text \<open>\<^verbatim>\<open>charAt(0).toUpperCase() + slice(1)\<close> on the three names.\<close>

definition capitalized :: "CancerType \<Rightarrow> string" where
  "capitalized c = (case c of liver \<Rightarrow> ''Liver'' | lung \<Rightarrow> ''Lung'' | breast \<Rightarrow> ''Breast'')"

record DiagnosisResult =
  probability :: int
  riskLevel :: string
  recommendation :: string
  res_cancerType :: string
  res_tumorSize :: real

text \<open>The body of the handler after validation, called \<open>computeRisk\<close> by the specification.\<close>

definition computeRisk :: "DiagnosisInput \<Rightarrow> DiagnosisResult" where
  "computeRisk data =
     (let p = cappedProbability data in
      \<lparr> probability = p,
        riskLevel = (if p \<ge> 70 then ''High'' else if p \<ge> 40 then ''Moderate'' else ''Low''),
        recommendation =
          (if p \<ge> 70 then
             ''High-risk indicators detected for '' @ cancerTypeName (cancerType data) @
             '' cancer. Immediate further diagnostic imaging and biopsy recommended. '' @
             ''Consider multidisciplinary oncology consultation.''
           else if p \<ge> 40 then
             ''Moderate risk detected. Recommend additional imaging studies (CT/MRI/PET scan) '' @
             ''and close monitoring. Follow-up appointment in 2-4 weeks advised.''
           else
             ''Current biomarkers show low risk. Continue routine surveillance with follow-up '' @
             ''testing in 3-6 months. Maintain healthy lifestyle factors.''),
        res_cancerType = capitalized (cancerType data),
        res_tumorSize = tumorSize data \<rparr>)"

text \<open>
  The route: the role check, then \<^verbatim>\<open>diagnosisSchema.parse\<close>, whose exception the
  \<^verbatim>\<open>catch\<close> block answers with status 500.
\<close>

definition diagnosisCalculate :: "Session \<Rightarrow> DiagnosisInput \<Rightarrow> DiagnosisResult response" where
  "diagnosisCalculate s body =
     (case requireRole ''doctor'' s of
        Some e \<Rightarrow> Failure e
      | None \<Rightarrow> if diagnosisSchema body then Success (computeRisk body) else Failure 500)"

section \<open>Tables read and written by the doctor-request routes\<close>

text \<open>
  The rows of \<^verbatim>\<open>shared/schema.ts\<close>, with the columns that the modelled routes read. Field
  names carry a prefix because several tables share the column names \<^verbatim>\<open>id\<close> and
  \<^verbatim>\<open>userId\<close>. Timestamps are milliseconds; a \<^verbatim>\<open>jsonb\<close> value is kept as its text.
\<close>

type_synonym timestamp = int
type_synonym json = string

record User =
  u_id :: int4
  u_role :: string

record Patient =
  p_id :: int4
  p_userId :: int4

record Doctor =
  d_id :: int4
  d_userId :: int4

text \<open>
  \<^verbatim>\<open>doctorRequests\<close>: \<^verbatim>\<open>status\<close> is a \<^verbatim>\<open>text\<close> column, not null, default
  \<^verbatim>\<open>"pending"\<close>; the comment of the schema lists the values pending, accepted, declined,
  reschedule. The nullable columns are options.
\<close>

record DoctorRequest =
  r_id :: int4
  r_patientId :: int4
  r_doctorId :: int4
  r_hospitalId :: "int4 option"
  r_status :: string
  r_note :: "string option"
  r_scheduleNote :: "string option"
  r_proposedSlot :: "string option"
  r_dataShare :: "json option"
  r_createdAt :: timestamp
  r_updatedAt :: timestamp

record Database =
  users :: "User list"
  patients :: "Patient list"
  doctors :: "Doctor list"
  hospitals :: "int4 list"
  doctorRequests :: "DoctorRequest list"

section \<open>Storage layer (class DatabaseStorage)\<close>

text \<open>
  The single-row getters: \<^verbatim>\<open>result[0] || null\<close> of a select with one equality. Their
  argument is an integer of the database already; a route that passes the result of
  \<^verbatim>\<open>parseInt\<close> binds it first (\<open>bindInt4\<close>).
\<close>

definition getUserById :: "Database \<Rightarrow> int4 \<Rightarrow> User option" where
  "getUserById db i = List.find (\<lambda>u. u_id u = i) (users db)"

definition getPatientById :: "Database \<Rightarrow> int4 \<Rightarrow> Patient option" where
  "getPatientById db i = List.find (\<lambda>p. p_id p = i) (patients db)"

definition getPatientByUserId :: "Database \<Rightarrow> int4 \<Rightarrow> Patient option" where
  "getPatientByUserId db u = List.find (\<lambda>p. p_userId p = u) (patients db)"

definition getDoctorByUserId :: "Database \<Rightarrow> int4 \<Rightarrow> Doctor option" where
  "getDoctorByUserId db u = List.find (\<lambda>d. d_userId d = u) (doctors db)"

definition getDoctorRequestById :: "Database \<Rightarrow> int4 \<Rightarrow> DoctorRequest option" where
  "getDoctorRequestById db i = List.find (\<lambda>r. r_id r = i) (doctorRequests db)"

text \<open>
  The rows of one doctor, newest first (\<^verbatim>\<open>orderBy(desc(createdAt))\<close>; the order among
  equal timestamps is the database's choice, here the reverse of a stable sort).
\<close>

definition getDoctorRequestsByDoctor :: "Database \<Rightarrow> int4 \<Rightarrow> DoctorRequest list" where
  "getDoctorRequestsByDoctor db d =
     rev (sort_key r_createdAt (filter (\<lambda>r. r_doctorId r = d) (doctorRequests db)))"

text \<open>
  \<^verbatim>\<open>InsertDoctorRequest\<close>: every column but \<^verbatim>\<open>id\<close>, \<^verbatim>\<open>createdAt\<close>, \<^verbatim>\<open>updatedAt\<close>.
  The doctor and hospital ids are what \<^verbatim>\<open>parseInt\<close> gave. A status left out takes the
  column default.
\<close>

record InsertDoctorRequest =
  i_patientId :: int4
  i_doctorId :: number
  i_hospitalId :: "number option"
  i_status :: "string option"
  i_note :: "string option"
  i_scheduleNote :: "string option"
  i_proposedSlot :: "string option"
  i_dataShare :: "json option"

text \<open>A nullable integer column: \<^verbatim>\<open>null\<close> is stored as it is, a number is bound.\<close>

definition bindNullableInt4 :: "number option \<Rightarrow> int4 option option" where
  "bindNullableInt4 n =
     (case n of
        None \<Rightarrow> Some None
      | Some x \<Rightarrow> (case bindInt4 x of None \<Rightarrow> None | Some w \<Rightarrow> Some (Some w)))"

text \<open>
  \<^verbatim>\<open>createDoctorRequest\<close>: one \<^verbatim>\<open>insert ... returning\<close>. The fresh serial id and the clock
  (\<^verbatim>\<open>defaultNow()\<close>) are given by the environment. \<open>None\<close> is the exception of a
  rejected insert: a number that is no 32-bit integer, a foreign key without its row, a
  primary key already in use.
\<close>

definition createDoctorRequest ::
  "timestamp \<Rightarrow> int4 \<Rightarrow> InsertDoctorRequest \<Rightarrow> Database \<Rightarrow> (DoctorRequest \<times> Database) option" where
  "createDoctorRequest now newId data db =
     (case bindInt4 (i_doctorId data) of
        None \<Rightarrow> None
      | Some d \<Rightarrow>
          (case bindNullableInt4 (i_hospitalId data) of
             None \<Rightarrow> None
           | Some h \<Rightarrow>
               let request = \<lparr> r_id = newId,
                               r_patientId = i_patientId data,
                               r_doctorId = d,
                               r_hospitalId = h,
                               r_status = (case i_status data of None \<Rightarrow> ''pending'' | Some s \<Rightarrow> s),
                               r_note = i_note data,
                               r_scheduleNote = i_scheduleNote data,
                               r_proposedSlot = i_proposedSlot data,
                               r_dataShare = i_dataShare data,
                               r_createdAt = now,
                               r_updatedAt = now \<rparr>
               in if newId \<in> set (map r_id (doctorRequests db))
                     \<or> i_patientId data \<notin> set (map p_id (patients db))
                     \<or> d \<notin> set (map d_id (doctors db))
                     \<or> (case h of None \<Rightarrow> False | Some x \<Rightarrow> x \<notin> set (hospitals db))
                  then None
                  else Some (request, db\<lparr>doctorRequests := doctorRequests db @ [request]\<rparr>)))"

text \<open>
  A property of a JavaScript object handed to \<^verbatim>\<open>.set(...)\<close>: left out
  (\<^verbatim>\<open>undefined\<close>, the column keeps its value), \<^verbatim>\<open>null\<close>, or a value.
\<close>

datatype 'a jsval = Undefined | Null | Val 'a

text \<open>\<^verbatim>\<open>Partial<DoctorRequest>\<close>: any subset of the columns.\<close>

record DoctorRequestPartial =
  pt_id :: "int4 jsval"
  pt_patientId :: "int4 jsval"
  pt_doctorId :: "int4 jsval"
  pt_hospitalId :: "int4 jsval"
  pt_status :: "string jsval"
  pt_note :: "string jsval"
  pt_scheduleNote :: "string jsval"
  pt_proposedSlot :: "string jsval"
  pt_dataShare :: "json jsval"
  pt_createdAt :: "timestamp jsval"
  pt_updatedAt :: "timestamp jsval"

text \<open>Writing one column; \<open>None\<close> from \<open>setNotNull\<close> is the not-null violation.\<close>

definition setNotNull :: "'a jsval \<Rightarrow> 'a \<Rightarrow> 'a option" where
  "setNotNull v old = (case v of Undefined \<Rightarrow> Some old | Null \<Rightarrow> None | Val x \<Rightarrow> Some x)"

definition setNullable :: "'a jsval \<Rightarrow> 'a option \<Rightarrow> 'a option" where
  "setNullable v old = (case v of Undefined \<Rightarrow> old | Null \<Rightarrow> None | Val x \<Rightarrow> Some x)"

text \<open>
  \<^verbatim>\<open>.set({ ...data, updatedAt: new Date() })\<close> on one row: the clock overrides whatever
  \<^verbatim>\<open>data.updatedAt\<close> holds.
\<close>

definition setRow :: "timestamp \<Rightarrow> DoctorRequestPartial \<Rightarrow> DoctorRequest \<Rightarrow> DoctorRequest option" where
  "setRow now data r =
     (case (setNotNull (pt_id data) (r_id r),
            setNotNull (pt_patientId data) (r_patientId r),
            setNotNull (pt_doctorId data) (r_doctorId r),
            setNotNull (pt_status data) (r_status r),
            setNotNull (pt_createdAt data) (r_createdAt r)) of
        (Some i, Some p, Some d, Some s, Some c) \<Rightarrow>
          Some \<lparr> r_id = i,
                 r_patientId = p,
                 r_doctorId = d,
                 r_hospitalId = setNullable (pt_hospitalId data) (r_hospitalId r),
                 r_status = s,
                 r_note = setNullable (pt_note data) (r_note r),
                 r_scheduleNote = setNullable (pt_scheduleNote data) (r_scheduleNote r),
                 r_proposedSlot = setNullable (pt_proposedSlot data) (r_proposedSlot r),
                 r_dataShare = setNullable (pt_dataShare data) (r_dataShare r),
                 r_createdAt = c,
                 r_updatedAt = now \<rparr>
      | _ \<Rightarrow> None)"

text \<open>The keys that a written column must respect.\<close>

definition keysAccepted :: "Database \<Rightarrow> DoctorRequestPartial \<Rightarrow> DoctorRequest list \<Rightarrow> bool" where
  "keysAccepted db data rows' =
     ((case pt_id data of Val i \<Rightarrow> length (filter (\<lambda>r. r_id r = i) rows') \<le> 1 | _ \<Rightarrow> True)
      \<and> (case pt_patientId data of Val p \<Rightarrow> p \<in> set (map p_id (patients db)) | _ \<Rightarrow> True)
      \<and> (case pt_doctorId data of Val d \<Rightarrow> d \<in> set (map d_id (doctors db)) | _ \<Rightarrow> True)
      \<and> (case pt_hospitalId data of Val h \<Rightarrow> h \<in> set (hospitals db) | _ \<Rightarrow> True))"

text \<open>
  \<^verbatim>\<open>updateDoctorRequest\<close>: the update \<^verbatim>\<open>where id = ...\<close> with \<^verbatim>\<open>returning\<close>; the answer
  is the first updated row, or null when no row has the id. \<open>None\<close> is the exception of a
  rejected update; nothing is written then.
\<close>

definition updateDoctorRequest ::
  "timestamp \<Rightarrow> int4 \<Rightarrow> DoctorRequestPartial \<Rightarrow> Database \<Rightarrow> (DoctorRequest option \<times> Database) option" where
  "updateDoctorRequest now i data db =
     (let hit = filter (\<lambda>r. r_id r = i) (doctorRequests db) in
      if list_ex (\<lambda>r. setRow now data r = None) hit then None
      else
        let rows' = map (\<lambda>r. if r_id r = i then (case setRow now data r of Some r' \<Rightarrow> r' | None \<Rightarrow> r) else r)
                        (doctorRequests db);
            returned = List.map_filter (setRow now data) hit
        in if hit \<noteq> [] \<and> \<not> keysAccepted db data rows' then None
           else Some (case returned of [] \<Rightarrow> None | request # _ \<Rightarrow> Some request,
                      db\<lparr>doctorRequests := rows'\<rparr>))"

section \<open>Routes of the doctor-request workflow\<close>

text \<open>
  GET /api/patients/:id, the check made for a doctor: the doctor's requests are searched
  for one of this patient whose status is the string \<^verbatim>\<open>"approved"\<close>.
\<close>

definition hasRelationship :: "Database \<Rightarrow> int4 \<Rightarrow> int4 \<Rightarrow> bool" where
  "hasRelationship db doctorId patientId =
     list_ex (\<lambda>r. r_patientId r = patientId \<and> r_status r = ''approved'')
       (getDoctorRequestsByDoctor db doctorId)"

text \<open>
  The route itself. The answer merges name, e-mail and phone of the patient's user into the
  patient row; the model returns the row.
\<close>

definition getPatient :: "Session \<Rightarrow> number \<Rightarrow> Database \<Rightarrow> Patient response" where
  "getPatient s idParam db =
     (case requireAuth s of
        Some e \<Rightarrow> Failure e
      | None \<Rightarrow>
          (case bindInt4 idParam of
             None \<Rightarrow> Failure 500
           | Some i \<Rightarrow>
               (case getPatientById db i of
                  None \<Rightarrow> Failure 404
                | Some patient \<Rightarrow>
                    if role s = Some ''patient'' \<and> Some (p_userId patient) \<noteq> userId s then Failure 403
                    else if role s = Some ''doctor'' then
                      (case userId s of
                         None \<Rightarrow> Failure 401
                       | Some uid \<Rightarrow>
                           (case getDoctorByUserId db uid of
                              None \<Rightarrow> Failure 403
                            | Some doctor \<Rightarrow>
                                if \<not> hasRelationship db (d_id doctor) i then Failure 403
                                else Success patient))
                    else Success patient)))"

text \<open>
  GET /api/doctor/patients: the patient ids of the doctor's requests whose status is
  \<^verbatim>\<open>"accepted"\<close>, each once, in the order of first occurrence (\<^verbatim>\<open>new Set\<close>).
\<close>

definition acceptedPatientIds :: "Database \<Rightarrow> int4 \<Rightarrow> int4 list" where
  "acceptedPatientIds db doctorId =
     (let requests = getDoctorRequestsByDoctor db doctorId;
          acceptedRequests = filter (\<lambda>r. r_status r = ''accepted'') requests
      in rev (remdups (rev (map r_patientId acceptedRequests))))"

text \<open>
  POST /api/doctor-requests. The body is untyped JSON; the route reads four of its keys.
  \<open>cb_doctorId\<close> is the value of \<^verbatim>\<open>parseInt(doctorId)\<close>, \<open>cb_hospitalId\<close> that of
  \<^verbatim>\<open>hospitalId ? parseInt(hospitalId) : null\<close>. Two keys that a caller may add and the
  route never reads are kept in the record.
\<close>

record CreateRequestBody =
  cb_doctorId :: number
  cb_hospitalId :: "number option"
  cb_note :: "string option"
  cb_dataShare :: "json option"
  cb_patientId :: "int option"
  cb_status :: "string option"

definition postDoctorRequest ::
  "timestamp \<Rightarrow> int4 \<Rightarrow> Session \<Rightarrow> CreateRequestBody \<Rightarrow> Database \<Rightarrow> DoctorRequest response \<times> Database" where
  "postDoctorRequest now newId s body db =
     (case requireRole ''patient'' s of
        Some e \<Rightarrow> (Failure e, db)
      | None \<Rightarrow>
          (case userId s of
             None \<Rightarrow> (Failure 401, db)
           | Some uid \<Rightarrow>
               (case getUserById db uid of
                  None \<Rightarrow> (Failure 403, db)
                | Some user \<Rightarrow>
                    if u_role user \<noteq> ''patient'' then (Failure 403, db)
                    else
                      (case getPatientByUserId db (u_id user) of
                         None \<Rightarrow> (Failure 404, db)
                       | Some patient \<Rightarrow>
                           (case createDoctorRequest now newId
                                   \<lparr> i_patientId = p_id patient,
                                     i_doctorId = cb_doctorId body,
                                     i_hospitalId = cb_hospitalId body,
                                     i_status = Some ''pending'',
                                     i_note = cb_note body,
                                     i_scheduleNote = None,
                                     i_proposedSlot = None,
                                     i_dataShare = cb_dataShare body \<rparr> db of
                              None \<Rightarrow> (Failure 500, db)
                            | Some (request, db') \<Rightarrow> (Success request, db'))))))"

text \<open>
  PATCH /api/doctor-requests/:id. Three keys of the body are read and passed on as they
  are; no other key of \<^verbatim>\<open>Partial<DoctorRequest>\<close> is set. The request is looked up
  first, the doctor of the session second.
\<close>

record UpdateRequestBody =
  ub_status :: "string jsval"
  ub_scheduleNote :: "string jsval"
  ub_proposedSlot :: "string jsval"

text \<open>The object literal \<^verbatim>\<open>{ status, scheduleNote, proposedSlot }\<close> given to the storage layer.\<close>

definition patchData :: "UpdateRequestBody \<Rightarrow> DoctorRequestPartial" where
  "patchData body =
     \<lparr> pt_id = Undefined,
       pt_patientId = Undefined,
       pt_doctorId = Undefined,
       pt_hospitalId = Undefined,
       pt_status = ub_status body,
       pt_note = Undefined,
       pt_scheduleNote = ub_scheduleNote body,
       pt_proposedSlot = ub_proposedSlot body,
       pt_dataShare = Undefined,
       pt_createdAt = Undefined,
       pt_updatedAt = Undefined \<rparr>"

definition patchDoctorRequest ::
  "timestamp \<Rightarrow> Session \<Rightarrow> number \<Rightarrow> UpdateRequestBody \<Rightarrow> Database
     \<Rightarrow> DoctorRequest option response \<times> Database" where
  "patchDoctorRequest now s idParam body db =
     (case requireRole ''doctor'' s of
        Some e \<Rightarrow> (Failure e, db)
      | None \<Rightarrow>
          (case bindInt4 idParam of
             None \<Rightarrow> (Failure 500, db)
           | Some i \<Rightarrow>
               (case getDoctorRequestById db i of
                  None \<Rightarrow> (Failure 404, db)
                | Some existingRequest \<Rightarrow>
                    (case userId s of
                       None \<Rightarrow> (Failure 401, db)
                     | Some uid \<Rightarrow>
                         (case getDoctorByUserId db uid of
                            None \<Rightarrow> (Failure 403, db)
                          | Some doctor \<Rightarrow>
                              if r_doctorId existingRequest \<noteq> d_id doctor then (Failure 403, db)
                              else
                                (case updateDoctorRequest now i (patchData body) db of
                                   None \<Rightarrow> (Failure 500, db)
                                 | Some (request, db') \<Rightarrow> (Success request, db')))))))"

text \<open>
  The two routes that write the table \<^verbatim>\<open>doctor_requests\<close>; the storage interface has no
  operation that deletes a request. One step runs one of them and keeps the database.
\<close>

datatype operation =
    PostDoctorRequest Session CreateRequestBody
  | PatchDoctorRequest Session number UpdateRequestBody

definition step :: "timestamp \<Rightarrow> int4 \<Rightarrow> operation \<Rightarrow> Database \<Rightarrow> Database" where
  "step now newId op db =
     (case op of
        PostDoctorRequest s body \<Rightarrow> snd (postDoctorRequest now newId s body db)
      | PatchDoctorRequest s idParam body \<Rightarrow> snd (patchDoctorRequest now s idParam body db))"

section \<open>Notions used to state the properties\<close>

text \<open>
  A stored request after an answer of its doctor, column by column: a status in the body
  replaces the stored one; a schedule note or proposed slot in the body is stored, an
  explicit \<^verbatim>\<open>null\<close> clears the column, a key left out keeps it; \<^verbatim>\<open>updatedAt\<close> is the
  clock; no other column changes. (A \<^verbatim>\<open>null\<close> status is never written: the update is
  rejected.)
\<close>

definition respondedRow :: "timestamp \<Rightarrow> UpdateRequestBody \<Rightarrow> DoctorRequest \<Rightarrow> DoctorRequest" where
  "respondedRow now body r =
     \<lparr> r_id = r_id r,
       r_patientId = r_patientId r,
       r_doctorId = r_doctorId r,
       r_hospitalId = r_hospitalId r,
       r_status = (case ub_status body of Undefined \<Rightarrow> r_status r | Null \<Rightarrow> r_status r | Val v \<Rightarrow> v),
       r_note = r_note r,
       r_scheduleNote =
         (case ub_scheduleNote body of Undefined \<Rightarrow> r_scheduleNote r | Null \<Rightarrow> None | Val v \<Rightarrow> Some v),
       r_proposedSlot =
         (case ub_proposedSlot body of Undefined \<Rightarrow> r_proposedSlot r | Null \<Rightarrow> None | Val v \<Rightarrow> Some v),
       r_dataShare = r_dataShare r,
       r_createdAt = r_createdAt r,
       r_updatedAt = now \<rparr>"

text \<open>The four status values that the comment of the schema lists.\<close>

definition listedStatus :: "string \<Rightarrow> bool" where
  "listedStatus v = (v = ''pending'' \<or> v = ''accepted'' \<or> v = ''declined'' \<or> v = ''reschedule'')"

section \<open>Example inputs\<close>

text \<open>The four examples of section 8 of the specification.\<close>

definition example1 :: DiagnosisInput where
  "example1 = \<lparr> cancerType = liver, tumorSize = 5, biomarker1 = 500,
                biomarker2 = None, additionalFactor = None \<rparr>"

definition example2 :: DiagnosisInput where
  "example2 = \<lparr> cancerType = lung, tumorSize = 1, biomarker1 = 3,
                biomarker2 = None, additionalFactor = Some ''current'' \<rparr>"

definition example3 :: DiagnosisInput where
  "example3 = \<lparr> cancerType = breast, tumorSize = 4, biomarker1 = 150,
                biomarker2 = Some ''positive'', additionalFactor = None \<rparr>"

definition example4 :: DiagnosisInput where
  "example4 = \<lparr> cancerType = breast, tumorSize = 2, biomarker1 = 20,
                biomarker2 = None, additionalFactor = None \<rparr>"

text \<open>
  A small hospital: patients 3 and 4, doctors 7 and 8, no request yet. Patient 3 asks
  doctor 7; doctor 7 accepts. Patient 4 asks doctor 8; doctor 8 proposes another slot.
\<close>

definition emptyDb :: Database where
  "emptyDb =
     \<lparr> users = [\<lparr>u_id = 30, u_role = ''patient''\<rparr>, \<lparr>u_id = 40, u_role = ''patient''\<rparr>,
                \<lparr>u_id = 70, u_role = ''doctor''\<rparr>, \<lparr>u_id = 80, u_role = ''doctor''\<rparr>],
       patients = [\<lparr>p_id = 3, p_userId = 30\<rparr>, \<lparr>p_id = 4, p_userId = 40\<rparr>],
       doctors = [\<lparr>d_id = 7, d_userId = 70\<rparr>, \<lparr>d_id = 8, d_userId = 80\<rparr>],
       hospitals = [1],
       doctorRequests = [] \<rparr>"

definition request1 :: "string \<Rightarrow> timestamp \<Rightarrow> DoctorRequest" where
  "request1 st upd =
     \<lparr> r_id = 1, r_patientId = 3, r_doctorId = 7, r_hospitalId = Some 1, r_status = st,
       r_note = Some ''second opinion'', r_scheduleNote = None, r_proposedSlot = None,
       r_dataShare = None, r_createdAt = 1000, r_updatedAt = upd \<rparr>"

definition request2 :: DoctorRequest where
  "request2 =
     \<lparr> r_id = 2, r_patientId = 4, r_doctorId = 8, r_hospitalId = None, r_status = ''pending'',
       r_note = None, r_scheduleNote = None, r_proposedSlot = None,
       r_dataShare = Some ''{consent: true}'', r_createdAt = 1500, r_updatedAt = 1500 \<rparr>"

definition request2Rescheduled :: DoctorRequest where
  "request2Rescheduled =
     \<lparr> r_id = 2, r_patientId = 4, r_doctorId = 8, r_hospitalId = None, r_status = ''reschedule'',
       r_note = None, r_scheduleNote = Some ''in surgery on Monday'',
       r_proposedSlot = Some ''Tuesday 10:00'',
       r_dataShare = Some ''{consent: true}'', r_createdAt = 1500, r_updatedAt = 2500 \<rparr>"

definition pendingDb :: Database where
  "pendingDb = emptyDb\<lparr>doctorRequests := [request1 ''pending'' 1000]\<rparr>"

definition acceptedDb :: Database where
  "acceptedDb = emptyDb\<lparr>doctorRequests := [request1 ''accepted'' 2000]\<rparr>"

definition twoRequestsDb :: Database where
  "twoRequestsDb = emptyDb\<lparr>doctorRequests := [request1 ''pending'' 1000, request2]\<rparr>"

definition patient3 :: Session where
  "patient3 = \<lparr> userId = Some 30, role = Some ''patient'' \<rparr>"

definition patient4 :: Session where
  "patient4 = \<lparr> userId = Some 40, role = Some ''patient'' \<rparr>"

definition doctor7 :: Session where
  "doctor7 = \<lparr> userId = Some 70, role = Some ''doctor'' \<rparr>"

definition doctor8 :: Session where
  "doctor8 = \<lparr> userId = Some 80, role = Some ''doctor'' \<rparr>"

text \<open>Patient 3 asks doctor 7, and adds keys that name patient 4 and an accepted status.\<close>

definition askDoctor7 :: CreateRequestBody where
  "askDoctor7 = \<lparr> cb_doctorId = Num 7, cb_hospitalId = Some (Num 1),
                  cb_note = Some ''second opinion'', cb_dataShare = None,
                  cb_patientId = Some 4, cb_status = Some ''accepted'' \<rparr>"

text \<open>Patient 4 asks doctor 8, and adds keys that name patient 3 and an accepted status.\<close>

definition askDoctor8 :: CreateRequestBody where
  "askDoctor8 = \<lparr> cb_doctorId = Num 8, cb_hospitalId = None,
                  cb_note = None, cb_dataShare = Some ''{consent: true}'',
                  cb_patientId = Some 3, cb_status = Some ''accepted'' \<rparr>"

definition answer :: "string \<Rightarrow> UpdateRequestBody" where
  "answer st = \<lparr> ub_status = Val st, ub_scheduleNote = Undefined, ub_proposedSlot = Undefined \<rparr>"

definition proposeSlot :: UpdateRequestBody where
  "proposeSlot = \<lparr> ub_status = Val ''reschedule'',
                   ub_scheduleNote = Val ''in surgery on Monday'',
                   ub_proposedSlot = Val ''Tuesday 10:00'' \<rparr>"

section \<open>Risk scoring: the bounds, the tiers, the order\<close>

lemma scale_above: "10 < (b::real) \<Longrightarrow> 1 \<le> m \<Longrightarrow> 10 < b * m"
proof -
  assume b: "10 < b" and m: "1 \<le> m"
  have "b * 1 \<le> b * m" using m b by (intro mult_left_mono) simp_all
  then have "b \<le> b * m" by simp
  with b show ?thesis by linarith
qed

lemma smokingMultiplier_ge1: "1 \<le> smokingMultiplier f"
  by (simp add: smokingMultiplier_def)

lemma her2Multiplier_ge1: "1 \<le> her2Multiplier b"
  by (simp add: her2Multiplier_def)

lemma switchProbability_above_10:
  assumes "0 < tumorSize data"
  shows "10 < switchProbability data"
proof (cases "cancerType data")
  case liver
  then show ?thesis using assms by (simp add: switchProbability_def min_def)
next
  case lung
  define b :: real where "b =
    (if biomarker1 data > 10 then 60 + min (tumorSize data * 4) 25
     else if biomarker1 data > 5 then 35 + min (tumorSize data * 3) 20
     else 10 + min (tumorSize data * 2) 15)"
  have sw: "switchProbability data = b * smokingMultiplier (additionalFactor data)"
    using lung by (simp add: switchProbability_def b_def)
  have "10 < b" using assms by (simp add: b_def min_def)
  then show ?thesis unfolding sw by (rule scale_above) (rule smokingMultiplier_ge1)
next
  case breast
  define b :: real where "b =
    (if biomarker1 data > 100 then 70 + min (tumorSize data * 3) 20
     else if biomarker1 data > 30 then 40 + min (tumorSize data * 2) 25
     else 12 + min (tumorSize data) 15)"
  have sw: "switchProbability data = b * her2Multiplier (biomarker2 data)"
    using breast by (simp add: switchProbability_def b_def)
  have "10 < b" using assms by (simp add: b_def min_def)
  then show ?thesis unfolding sw by (rule scale_above) (rule her2Multiplier_ge1)
qed

lemma cappedProbability_ge_10: "diagnosisSchema data \<Longrightarrow> 10 \<le> cappedProbability data"
  using switchProbability_above_10[of data]
  by (simp add: diagnosisSchema_def cappedProbability_def Math_round_def)

lemma cappedProbability_le_98: "cappedProbability data \<le> 98"
  by (simp add: cappedProbability_def)

lemma probability_computeRisk: "probability (computeRisk data) = cappedProbability data"
  by (simp add: computeRisk_def Let_def)

text \<open>
  C3. For an input that passes the schema (a positive tumour size), the probability is an
  integer between 0 and 98.
\<close>

theorem probability_in_range:
  "diagnosisSchema data \<Longrightarrow>
     0 \<le> probability (computeRisk data) \<and> probability (computeRisk data) \<le> 98"
  using cappedProbability_ge_10[of data] cappedProbability_le_98[of data]
  by (simp add: probability_computeRisk)

theorem probability_in_range_witness:
  "diagnosisSchema example3
   \<and> 0 \<le> probability (computeRisk example3) \<and> probability (computeRisk example3) \<le> 98"
  using probability_in_range[of example3]
  by (simp add: diagnosisSchema_def example3_def)

text \<open>
  C4. The risk level is High exactly when the returned probability is at least 70, Moderate
  exactly when it is at least 40 and below 70, Low exactly when it is below 40.
\<close>

theorem riskLevel_bands:
  "(riskLevel (computeRisk data) = ''High'' \<longleftrightarrow> probability (computeRisk data) \<ge> 70)
   \<and> (riskLevel (computeRisk data) = ''Moderate'' \<longleftrightarrow>
        40 \<le> probability (computeRisk data) \<and> probability (computeRisk data) < 70)
   \<and> (riskLevel (computeRisk data) = ''Low'' \<longleftrightarrow> probability (computeRisk data) < 40)"
  by (simp add: computeRisk_def Let_def)

text \<open>
  C9. For the liver type, with the biomarker and the other inputs fixed, a larger tumour
  size never gives a smaller probability.
\<close>

theorem liver_monotone_in_tumorSize:
  assumes "cancerType data = liver" and "0 < t1" and "t1 \<le> t2"
  shows "probability (computeRisk (data\<lparr>tumorSize := t1\<rparr>))
           \<le> probability (computeRisk (data\<lparr>tumorSize := t2\<rparr>))"
proof -
  have "switchProbability (data\<lparr>tumorSize := t1\<rparr>) \<le> switchProbability (data\<lparr>tumorSize := t2\<rparr>)"
    using assms by (simp add: switchProbability_def min_def)
  then have "Math_round (switchProbability (data\<lparr>tumorSize := t1\<rparr>))
               \<le> Math_round (switchProbability (data\<lparr>tumorSize := t2\<rparr>))"
    unfolding Math_round_def by (intro floor_mono) simp
  then show ?thesis
    by (simp add: probability_computeRisk cappedProbability_def)
qed

theorem liver_monotone_in_tumorSize_witness:
  "cancerType example1 = liver \<and> (0::real) < 2 \<and> (2::real) \<le> 5
   \<and> probability (computeRisk (example1\<lparr>tumorSize := 2\<rparr>)) = 81
   \<and> probability (computeRisk (example1\<lparr>tumorSize := 5\<rparr>)) = 90
   \<and> probability (computeRisk (example1\<lparr>tumorSize := 2\<rparr>))
       \<le> probability (computeRisk (example1\<lparr>tumorSize := 5\<rparr>))"
  using liver_monotone_in_tumorSize[of example1 2 5]
  by (simp add: example1_def probability_computeRisk cappedProbability_def Math_round_def
        switchProbability_def)

text \<open>
  C10. For an input that passes the schema the probability is at least 10: the smallest
  band value is 10 plus a positive term, and no multiplier is below 1.
\<close>

theorem probability_at_least_10:
  "diagnosisSchema data \<Longrightarrow> 10 \<le> probability (computeRisk data)"
  using cappedProbability_ge_10[of data] by (simp add: probability_computeRisk)

theorem probability_at_least_10_witness:
  "diagnosisSchema example2 \<and> 10 \<le> probability (computeRisk example2)"
  using probability_at_least_10[of example2]
  by (simp add: diagnosisSchema_def example2_def)

text \<open>The examples of section 8, computed.\<close>

lemma example1_result:
  "probability (computeRisk example1) = 90 \<and> riskLevel (computeRisk example1) = ''High''"
  by (simp add: example1_def computeRisk_def Let_def cappedProbability_def Math_round_def
        switchProbability_def)

lemma example2_result:
  "probability (computeRisk example2) = 22 \<and> riskLevel (computeRisk example2) = ''Low''"
  by (simp add: example2_def computeRisk_def Let_def cappedProbability_def Math_round_def
        switchProbability_def smokingMultiplier_def)

lemma example3_result:
  "probability (computeRisk example3) = 98 \<and> riskLevel (computeRisk example3) = ''High''"
  by (simp add: example3_def computeRisk_def Let_def cappedProbability_def Math_round_def
        switchProbability_def her2Multiplier_def)

lemma example4_result:
  "probability (computeRisk example4) = 14 \<and> riskLevel (computeRisk example4) = ''Low''"
  by (simp add: example4_def computeRisk_def Let_def cappedProbability_def Math_round_def
        switchProbability_def her2Multiplier_def)

lemma diagnosisCalculate_example1:
  "diagnosisCalculate doctor7 example1 = Success (computeRisk example1)"
  by (simp add: diagnosisCalculate_def requireRole_def authenticated_def doctor7_def
        diagnosisSchema_def example1_def)

section \<open>Storage: what the getters and the column writers return\<close>

text \<open>Binding a number keeps its value: the bound integer, read as signed, is the number.\<close>

lemma toInt4_sint: "toInt4 i = Some w \<Longrightarrow> sint w = i"
  by (auto simp add: toInt4_def sint_sbintrunc' signed_take_bit_int_eq_self split: if_splits)

lemma toInt4_None_iff: "toInt4 i = None \<longleftrightarrow> i < - (2 ^ 31) \<or> 2 ^ 31 \<le> i"
  by (auto simp add: toInt4_def)

text \<open>Each getter returns the first row with the key, and nothing when no row has it.\<close>

lemma getUserById_Some_iff:
  "getUserById db i = Some u \<longleftrightarrow>
     (\<exists>k < length (users db). users db ! k = u \<and> u_id u = i
        \<and> (\<forall>j < k. u_id (users db ! j) \<noteq> i))"
  by (auto simp add: getUserById_def find_Some_iff)

lemma getPatientByUserId_Some_iff:
  "getPatientByUserId db uid = Some p \<longleftrightarrow>
     (\<exists>k < length (patients db). patients db ! k = p \<and> p_userId p = uid
        \<and> (\<forall>j < k. p_userId (patients db ! j) \<noteq> uid))"
  by (auto simp add: getPatientByUserId_def find_Some_iff)

lemma getPatientById_Some_iff:
  "getPatientById db i = Some p \<longleftrightarrow>
     (\<exists>k < length (patients db). patients db ! k = p \<and> p_id p = i
        \<and> (\<forall>j < k. p_id (patients db ! j) \<noteq> i))"
  by (auto simp add: getPatientById_def find_Some_iff)

lemma getDoctorByUserId_Some_iff:
  "getDoctorByUserId db uid = Some d \<longleftrightarrow>
     (\<exists>k < length (doctors db). doctors db ! k = d \<and> d_userId d = uid
        \<and> (\<forall>j < k. d_userId (doctors db ! j) \<noteq> uid))"
  by (auto simp add: getDoctorByUserId_def find_Some_iff)

lemma getDoctorByUserId_None_iff:
  "getDoctorByUserId db uid = None \<longleftrightarrow> (\<forall>d \<in> set (doctors db). d_userId d \<noteq> uid)"
  by (auto simp add: getDoctorByUserId_def find_None_iff)

lemma getDoctorRequestById_Some_iff:
  "getDoctorRequestById db i = Some r \<longleftrightarrow>
     (\<exists>k < length (doctorRequests db). doctorRequests db ! k = r \<and> r_id r = i
        \<and> (\<forall>j < k. r_id (doctorRequests db ! j) \<noteq> i))"
  by (auto simp add: getDoctorRequestById_def find_Some_iff)


lemma setNullable_values:
  "setNullable Undefined old = old"
  "setNullable Null old = None"
  "setNullable (Val x) old = Some x"
  by (simp_all add: setNullable_def)

lemma setNotNull_values:
  "setNotNull Undefined old = Some old"
  "setNotNull Null old = None"
  "setNotNull (Val x) old = Some x"
  by (simp_all add: setNotNull_def)

section \<open>Storage and routes: what one call does\<close>

lemma setRow_patchData:
  "setRow now (patchData body) r =
     (if ub_status body = Null then None else Some (respondedRow now body r))"
  by (cases "ub_status body"; cases "ub_scheduleNote body"; cases "ub_proposedSlot body")
     (simp_all add: setRow_def patchData_def setNotNull_values setNullable_values respondedRow_def)

lemma keysAccepted_patchData: "keysAccepted db (patchData body) rows"
  by (simp add: keysAccepted_def patchData_def)

lemma find_as_filter:
  "List.find P xs = (case filter P xs of [] \<Rightarrow> None | x # _ \<Rightarrow> Some x)"
  by (induction xs) simp_all

lemma first_of_map:
  "(case map g ys of [] \<Rightarrow> None | x # _ \<Rightarrow> Some x) =
     map_option g (case ys of [] \<Rightarrow> None | x # _ \<Rightarrow> Some x)"
  by (cases ys) simp_all

lemma map_filter_Some: "List.map_filter (\<lambda>r. Some (g r)) ys = map g ys"
  by (simp add: List.map_filter_def)

lemma updateDoctorRequest_patchData:
  "updateDoctorRequest now i (patchData body) db =
     (if ub_status body = Null \<and> getDoctorRequestById db i \<noteq> None then None
      else Some (map_option (respondedRow now body) (getDoctorRequestById db i),
                 db\<lparr>doctorRequests :=
                      map (\<lambda>r. if r_id r = i then respondedRow now body r else r) (doctorRequests db)\<rparr>))"
proof (cases "ub_status body = Null")
  case True
  then show ?thesis
    by (auto simp add: updateDoctorRequest_def Let_def setRow_patchData getDoctorRequestById_def
          find_as_filter list_ex_iff List.map_filter_def filter_empty_conv keysAccepted_patchData
          split: list.splits)
next
  case False
  then have f: "setRow now (patchData body) = (\<lambda>r. Some (respondedRow now body r))"
    by (intro ext) (simp add: setRow_patchData)
  from False show ?thesis
    by (simp add: updateDoctorRequest_def Let_def f getDoctorRequestById_def
          find_as_filter list_ex_iff map_filter_Some first_of_map keysAccepted_patchData)
qed

lemma requireRole_None: "requireRole r s = None \<Longrightarrow> role s = Some r \<and> authenticated s"
  by (simp add: requireRole_def split: if_splits)

lemma patchDoctorRequest_cases:
  assumes "patchDoctorRequest now s idParam body db = (out, db')"
  shows "(\<exists>e. out = Failure e \<and> db' = db) \<or>
         (\<exists>i w uid doctor existing.
             idParam = Num i \<and> toInt4 i = Some w
           \<and> requireRole ''doctor'' s = None \<and> userId s = Some uid
           \<and> getDoctorByUserId db uid = Some doctor
           \<and> getDoctorRequestById db w = Some existing
           \<and> r_doctorId existing = d_id doctor
           \<and> ub_status body \<noteq> Null
           \<and> out = Success (Some (respondedRow now body existing))
           \<and> db' = db\<lparr>doctorRequests :=
                        map (\<lambda>r. if r_id r = w then respondedRow now body r else r) (doctorRequests db)\<rparr>)"
  using assms
  unfolding patchDoctorRequest_def bindInt4_def
  by (auto simp add: updateDoctorRequest_patchData split: option.splits number.splits if_splits)

lemma createDoctorRequest_Some:
  assumes "createDoctorRequest now newId data db = Some (request, db')"
  shows "db' = db\<lparr>doctorRequests := doctorRequests db @ [request]\<rparr>
       \<and> r_id request = newId \<and> newId \<notin> set (map r_id (doctorRequests db))
       \<and> r_patientId request = i_patientId data
       \<and> r_status request = (case i_status data of None \<Rightarrow> ''pending'' | Some s \<Rightarrow> s)"
  using assms
  by (auto simp add: createDoctorRequest_def Let_def split: option.splits if_splits)

lemma getUserById_Some: "getUserById db uid = Some user \<Longrightarrow> u_id user = uid"
  by (auto simp add: getUserById_def find_Some_iff)

lemma postDoctorRequest_cases:
  assumes "postDoctorRequest now newId s body db = (out, db')"
  shows "(\<exists>e. out = Failure e \<and> db' = db) \<or>
         (\<exists>uid user patient request.
             out = Success request \<and> role s = Some ''patient'' \<and> userId s = Some uid
           \<and> getUserById db uid = Some user \<and> u_role user = ''patient''
           \<and> getPatientByUserId db uid = Some patient
           \<and> r_patientId request = p_id patient \<and> r_status request = ''pending''
           \<and> r_id request = newId \<and> newId \<notin> set (map r_id (doctorRequests db))
           \<and> db' = db\<lparr>doctorRequests := doctorRequests db @ [request]\<rparr>)"
proof -
  have rl: "requireRole ''patient'' s = None \<Longrightarrow> role s = Some ''patient''"
    by (simp add: requireRole_None)
  show ?thesis
    using assms rl
    unfolding postDoctorRequest_def
    by (auto split: option.splits if_splits dest!: createDoctorRequest_Some dest: getUserById_Some)
qed

lemma step_cases:
  "step now newId op db = db
   \<or> (\<exists>s i w body uid doctor existing.
         op = PatchDoctorRequest s (Num i) body \<and> toInt4 i = Some w \<and> role s = Some ''doctor''
       \<and> userId s = Some uid \<and> getDoctorByUserId db uid = Some doctor
       \<and> getDoctorRequestById db w = Some existing \<and> r_doctorId existing = d_id doctor
       \<and> ub_status body \<noteq> Null
       \<and> step now newId op db = db\<lparr>doctorRequests :=
             map (\<lambda>r. if r_id r = w then respondedRow now body r else r) (doctorRequests db)\<rparr>)
   \<or> (\<exists>s body request.
         op = PostDoctorRequest s body \<and> role s = Some ''patient''
       \<and> r_status request = ''pending'' \<and> r_id request = newId
       \<and> newId \<notin> set (map r_id (doctorRequests db))
       \<and> step now newId op db = db\<lparr>doctorRequests := doctorRequests db @ [request]\<rparr>)"
proof (cases op)
  case (PostDoctorRequest s body)
  obtain out db' where p: "postDoctorRequest now newId s body db = (out, db')"
    by (cases "postDoctorRequest now newId s body db")
  from postDoctorRequest_cases[OF p] show ?thesis
    using PostDoctorRequest p by (auto simp add: step_def)
next
  case (PatchDoctorRequest s idParam body)
  obtain out db' where p: "patchDoctorRequest now s idParam body db = (out, db')"
    by (cases "patchDoctorRequest now s idParam body db")
  from patchDoctorRequest_cases[OF p] show ?thesis
    using PatchDoctorRequest p by (auto simp add: step_def dest: requireRole_None)
qed

lemma respondedRow_frame:
  "r_id (respondedRow now body r) = r_id r"
  "r_patientId (respondedRow now body r) = r_patientId r"
  "r_doctorId (respondedRow now body r) = r_doctorId r"
  "r_hospitalId (respondedRow now body r) = r_hospitalId r"
  "r_note (respondedRow now body r) = r_note r"
  "r_dataShare (respondedRow now body r) = r_dataShare r"
  "r_createdAt (respondedRow now body r) = r_createdAt r"
  by (simp_all add: respondedRow_def)

lemma map_r_id_responded:
  "map r_id (map (\<lambda>r. if r_id r = i then respondedRow now body r else r) rows) = map r_id rows"
  by (induction rows) (simp_all add: respondedRow_frame)

text \<open>The primary key stays a key: no step gives two requests the same id.\<close>

lemma step_keeps_ids_distinct:
  assumes "distinct (map r_id (doctorRequests db))"
  shows "distinct (map r_id (doctorRequests (step now newId op db)))"
proof -
  consider "step now newId op db = db"
    | i body where "step now newId op db = db\<lparr>doctorRequests :=
        map (\<lambda>r. if r_id r = i then respondedRow now body r else r) (doctorRequests db)\<rparr>"
    | request where "r_id request \<notin> set (map r_id (doctorRequests db))"
        "step now newId op db = db\<lparr>doctorRequests := doctorRequests db @ [request]\<rparr>"
    using step_cases[of now newId op db] by blast
  then show ?thesis
  proof cases
    case 1
    then show ?thesis using assms by simp
  next
    case 2
    have "map r_id (doctorRequests (step now newId op db)) = map r_id (doctorRequests db)"
      unfolding 2 using map_r_id_responded[of i now body "doctorRequests db"] by simp
    then show ?thesis using assms by simp
  next
    case 3
    then show ?thesis using assms by simp
  qed
qed

lemma ids_distinct_emptyDb: "distinct (map r_id (doctorRequests emptyDb))"
  by (simp add: emptyDb_def)

lemma find_distinct_nth:
  assumes "distinct (map f xs)" and "k < length xs"
  shows "List.find (\<lambda>x. f x = f (xs ! k)) xs = Some (xs ! k)"
  using assms
proof (induction xs arbitrary: k)
  case Nil
  then show ?case by simp
next
  case (Cons x xs)
  show ?case
  proof (cases k)
    case 0
    then show ?thesis by simp
  next
    case (Suc j)
    with Cons.prems have j: "j < length xs" and d: "distinct (map f xs)" and
      n: "f x \<notin> f ` set xs" by simp_all
    from j have "f (xs ! j) \<in> f ` set xs" by simp
    with n have "f x \<noteq> f (xs ! j)" by metis
    with Cons.IH[OF d j] Suc show ?thesis by simp
  qed
qed

text \<open>
  An answer by the doctor of the request is carried out whatever the stored status is: the
  route reads the \<open>doctorId\<close> of the stored row and nothing else of it.
\<close>

lemma patch_by_addressed_doctor:
  assumes d: "distinct (map r_id (doctorRequests db))"
      and k: "k < length (doctorRequests db)"
      and i: "toInt4 i = Some (r_id (doctorRequests db ! k))"
      and r: "requireRole ''doctor'' s = None"
      and u: "userId s = Some uid"
      and e: "\<exists>doctor \<in> set (doctors db). d_userId doctor = uid"
      and a: "\<forall>doctor \<in> set (doctors db).
                d_userId doctor = uid \<longrightarrow> d_id doctor = r_doctorId (doctorRequests db ! k)"
      and v: "ub_status body \<noteq> Null"
  shows "patchDoctorRequest now s (Num i) body db =
           (Success (Some (respondedRow now body (doctorRequests db ! k))),
            db\<lparr>doctorRequests :=
                 map (\<lambda>r. if r_id r = r_id (doctorRequests db ! k) then respondedRow now body r else r)
                     (doctorRequests db)\<rparr>)"
proof -
  have g: "getDoctorRequestById db (r_id (doctorRequests db ! k)) = Some (doctorRequests db ! k)"
    unfolding getDoctorRequestById_def by (rule find_distinct_nth[OF d k])
  from e obtain doctor where f: "getDoctorByUserId db uid = Some doctor"
    by (cases "getDoctorByUserId db uid") (auto simp add: getDoctorByUserId_None_iff)
  then have "doctor \<in> set (doctors db)" and "d_userId doctor = uid"
    by (auto simp add: getDoctorByUserId_Some_iff)
  with a have m: "d_id doctor = r_doctorId (doctorRequests db ! k)" by blast
  show ?thesis
    using r u i g f m v
    by (simp add: patchDoctorRequest_def bindInt4_def updateDoctorRequest_patchData)
qed

section \<open>The access check of the patient route\<close>

lemma set_getDoctorRequestsByDoctor:
  "set (getDoctorRequestsByDoctor db d) = {r \<in> set (doctorRequests db). r_doctorId r = d}"
  by (simp add: getDoctorRequestsByDoctor_def)

text \<open>What the check of GET /api/patients/:id decides, and what the list of a doctor's
  patients (GET /api/doctor/patients) decides.\<close>

lemma hasRelationship_iff:
  "hasRelationship db d p \<longleftrightarrow>
     (\<exists>r \<in> set (doctorRequests db).
        r_doctorId r = d \<and> r_patientId r = p \<and> r_status r = ''approved'')"
  by (auto simp add: hasRelationship_def list_ex_iff set_getDoctorRequestsByDoctor)

lemma acceptedPatientIds_iff:
  "p \<in> set (acceptedPatientIds db d) \<longleftrightarrow>
     (\<exists>r \<in> set (doctorRequests db).
        r_doctorId r = d \<and> r_patientId r = p \<and> r_status r = ''accepted'')"
  by (auto simp add: acceptedPatientIds_def Let_def set_getDoctorRequestsByDoctor)

text \<open>The example database with the accepted request is what the two routes produce.\<close>

lemma pendingDb_reached:
  "postDoctorRequest 1000 1 patient3 askDoctor7 emptyDb
     = (Success (request1 ''pending'' 1000), pendingDb)"
  by (simp add: postDoctorRequest_def requireRole_def authenticated_def patient3_def
        getUserById_def getPatientByUserId_def emptyDb_def askDoctor7_def
        createDoctorRequest_def bindInt4_def bindNullableInt4_def toInt4_def Let_def
        request1_def pendingDb_def)

lemma acceptedDb_reached:
  "patchDoctorRequest 2000 doctor7 (Num 1) (answer ''accepted'') pendingDb
     = (Success (Some (request1 ''accepted'' 2000)), acceptedDb)"
  by (simp add: patchDoctorRequest_def requireRole_def authenticated_def doctor7_def
        bindInt4_def toInt4_def getDoctorRequestById_def getDoctorByUserId_def pendingDb_def
        emptyDb_def updateDoctorRequest_patchData respondedRow_def answer_def request1_def
        acceptedDb_def)

text \<open>
  C1. Specified: the check made when a doctor reads a patient's record holds exactly when
  a request of this doctor and patient with status accepted is stored. Found, at the
  database with the accepted request of patient 3 to doctor 7: the check fails and the
  route answers 403, while the list of the doctor's patients contains patient 3.
\<close>

theorem accepted_request_denied:
  "hasRelationship acceptedDb 7 3 = False
   \<and> getPatient doctor7 (Num 3) acceptedDb = Failure 403
   \<and> acceptedPatientIds acceptedDb 7 = [3]"
  by (simp add: hasRelationship_def getDoctorRequestsByDoctor_def acceptedDb_def emptyDb_def
        request1_def getPatient_def requireAuth_def authenticated_def doctor7_def
        bindInt4_def toInt4_def getPatientById_def getDoctorByUserId_def acceptedPatientIds_def
        Let_def)

section \<open>Creating a request\<close>

text \<open>
  C7. When the create route succeeds, the caller has the patient role and is a user with
  that role; the stored \<open>patientId\<close> is the id of the patient row that belongs to the
  caller (the first row of \<^verbatim>\<open>patients\<close> whose \<open>userId\<close> is the user id of the session);
  the status is pending; and the request is appended to the table. The keys \<open>patientId\<close>
  and \<open>status\<close> of the body play no part.
\<close>

theorem created_request_is_own_and_pending:
  assumes "postDoctorRequest now newId s body db = (Success request, db')"
  shows "role s = Some ''patient''
       \<and> (\<exists>uid. userId s = Some uid
            \<and> (\<exists>user \<in> set (users db). u_id user = uid \<and> u_role user = ''patient'')
            \<and> (\<exists>k < length (patients db).
                  p_userId (patients db ! k) = uid
                \<and> (\<forall>j < k. p_userId (patients db ! j) \<noteq> uid)
                \<and> r_patientId request = p_id (patients db ! k)))
       \<and> r_status request = ''pending''
       \<and> doctorRequests db' = doctorRequests db @ [request]"
proof -
  from postDoctorRequest_cases[OF assms] obtain uid user patient where
    r: "role s = Some ''patient''" and u: "userId s = Some uid" and
    gu: "getUserById db uid = Some user" and ur: "u_role user = ''patient''" and
    gp: "getPatientByUserId db uid = Some patient" and
    rp: "r_patientId request = p_id patient" and st: "r_status request = ''pending''" and
    ap: "db' = db\<lparr>doctorRequests := doctorRequests db @ [request]\<rparr>"
    by auto
  from gu have a: "\<exists>user \<in> set (users db). u_id user = uid \<and> u_role user = ''patient''"
    using ur by (auto simp add: getUserById_Some_iff)
  from gp obtain k where k: "k < length (patients db)" "patients db ! k = patient"
    "p_userId patient = uid" "\<forall>j < k. p_userId (patients db ! j) \<noteq> uid"
    by (auto simp add: getPatientByUserId_Some_iff)
  then have b: "\<exists>k < length (patients db).
                  p_userId (patients db ! k) = uid
                \<and> (\<forall>j < k. p_userId (patients db ! j) \<noteq> uid)
                \<and> r_patientId request = p_id (patients db ! k)"
    using rp by auto
  from r u a b st ap show ?thesis by auto
qed

lemma twoRequestsDb_reached:
  "postDoctorRequest 1500 2 patient4 askDoctor8 pendingDb = (Success request2, twoRequestsDb)"
  by (simp add: postDoctorRequest_def requireRole_def authenticated_def patient4_def
        getUserById_def getPatientByUserId_def pendingDb_def emptyDb_def askDoctor8_def
        createDoctorRequest_def bindInt4_def bindNullableInt4_def toInt4_def Let_def
        request1_def request2_def twoRequestsDb_def)

theorem created_request_is_own_and_pending_witness:
  "postDoctorRequest 1500 2 patient4 askDoctor8 pendingDb = (Success request2, twoRequestsDb)
   \<and> cb_patientId askDoctor8 = Some 3 \<and> cb_status askDoctor8 = Some ''accepted''
   \<and> role patient4 = Some ''patient''
   \<and> userId patient4 = Some 40
   \<and> patients pendingDb = [\<lparr>p_id = 3, p_userId = 30\<rparr>, \<lparr>p_id = 4, p_userId = 40\<rparr>]
   \<and> r_patientId request2 = 4
   \<and> r_status request2 = ''pending''
   \<and> doctorRequests twoRequestsDb = doctorRequests pendingDb @ [request2]"
proof -
  note w = created_request_is_own_and_pending[OF twoRequestsDb_reached]
  have a: "cb_patientId askDoctor8 = Some 3 \<and> cb_status askDoctor8 = Some ''accepted''"
    by (simp add: askDoctor8_def)
  have b: "userId patient4 = Some 40" by (simp add: patient4_def)
  have c: "patients pendingDb = [\<lparr>p_id = 3, p_userId = 30\<rparr>, \<lparr>p_id = 4, p_userId = 40\<rparr>]"
    by (simp add: pendingDb_def emptyDb_def)
  have d: "r_patientId request2 = 4" by (simp add: request2_def)
  from w a b c d twoRequestsDb_reached show ?thesis by blast
qed

section \<open>Answering a request\<close>



text \<open>
  An id that is no 32-bit integer makes the lookup throw: the answer is 500, not 404, and
  the database stays as it was.
\<close>

lemma patch_id_out_of_range:
  assumes "requireRole ''doctor'' s = None" and "toInt4 i = None"
  shows "patchDoctorRequest now s (Num i) body db = (Failure 500, db)"
  using assms by (simp add: patchDoctorRequest_def bindInt4_def)

lemma patch_id_out_of_range_example:
  "patchDoctorRequest 2000 doctor8 (Num 99999999999) (answer ''accepted'') pendingDb
     = (Failure 500, pendingDb)"
  by (rule patch_id_out_of_range)
     (simp_all add: requireRole_def authenticated_def doctor8_def toInt4_def)

text \<open>
  C8. Whatever one step of the component does, no stored request disappears, and a stored
  request keeps its id, patient, doctor, hospital, note, shared data and creation time.
  A stored request changes only in an answer to its own id, and then it is the old row with
  status, schedule note and proposed slot as the body gives them and \<open>updatedAt\<close> set to
  the clock (\<open>respondedRow\<close>); this is what every successful answer writes to the request
  it names. In particular a status, a schedule note and a proposed slot that the body
  carries are the values stored. The other tables stay as they were.
\<close>

theorem update_frame:
  assumes "k < length (doctorRequests db)"
  shows "length (doctorRequests db) \<le> length (doctorRequests (step now newId op db))
       \<and> r_id (doctorRequests (step now newId op db) ! k) = r_id (doctorRequests db ! k)
       \<and> r_patientId (doctorRequests (step now newId op db) ! k) = r_patientId (doctorRequests db ! k)
       \<and> r_doctorId (doctorRequests (step now newId op db) ! k) = r_doctorId (doctorRequests db ! k)
       \<and> r_hospitalId (doctorRequests (step now newId op db) ! k) = r_hospitalId (doctorRequests db ! k)
       \<and> r_note (doctorRequests (step now newId op db) ! k) = r_note (doctorRequests db ! k)
       \<and> r_dataShare (doctorRequests (step now newId op db) ! k) = r_dataShare (doctorRequests db ! k)
       \<and> r_createdAt (doctorRequests (step now newId op db) ! k) = r_createdAt (doctorRequests db ! k)
       \<and> (doctorRequests (step now newId op db) ! k = doctorRequests db ! k
          \<or> (\<exists>s i body. op = PatchDoctorRequest s (Num i) body
               \<and> toInt4 i = Some (r_id (doctorRequests db ! k))
               \<and> doctorRequests (step now newId op db) ! k
                   = respondedRow now body (doctorRequests db ! k)))
       \<and> (\<forall>s i body request db'.
             op = PatchDoctorRequest s (Num i) body
           \<and> toInt4 i = Some (r_id (doctorRequests db ! k))
           \<and> patchDoctorRequest now s (Num i) body db = (Success request, db')
           \<longrightarrow> doctorRequests (step now newId op db) ! k
                   = respondedRow now body (doctorRequests db ! k)
               \<and> (\<forall>st. ub_status body = Val st
                     \<longrightarrow> r_status (doctorRequests (step now newId op db) ! k) = st)
               \<and> (\<forall>n. ub_scheduleNote body = Val n
                     \<longrightarrow> r_scheduleNote (doctorRequests (step now newId op db) ! k) = Some n)
               \<and> (\<forall>p. ub_proposedSlot body = Val p
                     \<longrightarrow> r_proposedSlot (doctorRequests (step now newId op db) ! k) = Some p)
               \<and> r_updatedAt (doctorRequests (step now newId op db) ! k) = now)
       \<and> users (step now newId op db) = users db
       \<and> patients (step now newId op db) = patients db
       \<and> doctors (step now newId op db) = doctors db
       \<and> hospitals (step now newId op db) = hospitals db"
proof (cases op)
  case (PostDoctorRequest s body)
  obtain out db' where p: "postDoctorRequest now newId s body db = (out, db')"
    by (cases "postDoctorRequest now newId s body db")
  then have st: "step now newId op db = db'"
    using PostDoctorRequest by (simp add: step_def)
  from postDoctorRequest_cases[OF p]
  have "db' = db \<or> (\<exists>request. db' = db\<lparr>doctorRequests := doctorRequests db @ [request]\<rparr>)"
    by auto
  then show ?thesis
    unfolding st using PostDoctorRequest assms by (auto simp add: nth_append)
next
  case (PatchDoctorRequest s idParam body)
  obtain out db' where p: "patchDoctorRequest now s idParam body db = (out, db')"
    by (cases "patchDoctorRequest now s idParam body db")
  then have st: "step now newId op db = db'"
    using PatchDoctorRequest by (simp add: step_def)
  from patchDoctorRequest_cases[OF p]
  consider (fail) e where "out = Failure e" "db' = db"
    | (ok) i w where "idParam = Num i" "toInt4 i = Some w"
        "db' = db\<lparr>doctorRequests :=
           map (\<lambda>r. if r_id r = w then respondedRow now body r else r) (doctorRequests db)\<rparr>"
    by blast
  then show ?thesis
  proof cases
    case fail
    then show ?thesis unfolding st using PatchDoctorRequest p by auto
  next
    case ok
    have v: "\<And>r. (\<forall>st. ub_status body = Val st \<longrightarrow> r_status (respondedRow now body r) = st)
               \<and> (\<forall>n. ub_scheduleNote body = Val n \<longrightarrow> r_scheduleNote (respondedRow now body r) = Some n)
               \<and> (\<forall>p. ub_proposedSlot body = Val p \<longrightarrow> r_proposedSlot (respondedRow now body r) = Some p)
               \<and> r_updatedAt (respondedRow now body r) = now"
      by (simp add: respondedRow_def)
    from ok show ?thesis
      unfolding st using PatchDoctorRequest assms v by (auto simp add: respondedRow_frame)
  qed
qed

lemma request2_rescheduled:
  "patchDoctorRequest 2500 doctor8 (Num 2) proposeSlot twoRequestsDb
     = (Success (Some request2Rescheduled),
        twoRequestsDb\<lparr>doctorRequests := [request1 ''pending'' 1000, request2Rescheduled]\<rparr>)"
  by (simp add: patchDoctorRequest_def requireRole_def authenticated_def doctor8_def
        bindInt4_def toInt4_def getDoctorRequestById_def getDoctorByUserId_def twoRequestsDb_def
        emptyDb_def updateDoctorRequest_def Let_def setRow_def patchData_def setNotNull_def
        setNullable_def keysAccepted_def List.map_filter_def proposeSlot_def request1_def
        request2_def request2Rescheduled_def)

theorem update_frame_witness:
  "(1::nat) < length (doctorRequests twoRequestsDb)
   \<and> toInt4 2 = Some (r_id (doctorRequests twoRequestsDb ! 1))
   \<and> patchDoctorRequest 2500 doctor8 (Num 2) proposeSlot twoRequestsDb
       = (Success (Some request2Rescheduled),
          twoRequestsDb\<lparr>doctorRequests := [request1 ''pending'' 1000, request2Rescheduled]\<rparr>)
   \<and> ub_status proposeSlot = Val ''reschedule''
   \<and> ub_scheduleNote proposeSlot = Val ''in surgery on Monday''
   \<and> ub_proposedSlot proposeSlot = Val ''Tuesday 10:00''
   \<and> r_status (doctorRequests (step 2500 3 (PatchDoctorRequest doctor8 (Num 2) proposeSlot) twoRequestsDb) ! 1)
       = ''reschedule''
   \<and> r_scheduleNote (doctorRequests (step 2500 3 (PatchDoctorRequest doctor8 (Num 2) proposeSlot) twoRequestsDb) ! 1)
       = Some ''in surgery on Monday''
   \<and> r_proposedSlot (doctorRequests (step 2500 3 (PatchDoctorRequest doctor8 (Num 2) proposeSlot) twoRequestsDb) ! 1)
       = Some ''Tuesday 10:00''
   \<and> r_updatedAt (doctorRequests (step 2500 3 (PatchDoctorRequest doctor8 (Num 2) proposeSlot) twoRequestsDb) ! 1)
       = 2500
   \<and> r_dataShare (doctorRequests (step 2500 3 (PatchDoctorRequest doctor8 (Num 2) proposeSlot) twoRequestsDb) ! 1)
       = r_dataShare (doctorRequests twoRequestsDb ! 1)
   \<and> length (doctorRequests twoRequestsDb)
       \<le> length (doctorRequests (step 2500 3 (PatchDoctorRequest doctor8 (Num 2) proposeSlot) twoRequestsDb))"
proof -
  have l: "(1::nat) < length (doctorRequests twoRequestsDb)" by (simp add: twoRequestsDb_def)
  have i: "toInt4 2 = Some (r_id (doctorRequests twoRequestsDb ! 1))"
    by (simp add: twoRequestsDb_def request2_def toInt4_def)
  have b: "ub_status proposeSlot = Val ''reschedule''"
    "ub_scheduleNote proposeSlot = Val ''in surgery on Monday''"
    "ub_proposedSlot proposeSlot = Val ''Tuesday 10:00''"
    by (simp_all add: proposeSlot_def)
  note w = update_frame[OF l, of 2500 3 "PatchDoctorRequest doctor8 (Num 2) proposeSlot"]
  from w i b request2_rescheduled l show ?thesis by blast
qed

text \<open>The same step leaves the request of the other doctor as it was.\<close>

lemma other_request_untouched:
  "doctorRequests (step 2500 3 (PatchDoctorRequest doctor8 (Num 2) proposeSlot) twoRequestsDb)
     = [request1 ''pending'' 1000, request2Rescheduled]"
  by (simp add: step_def request2_rescheduled)

section \<open>The life of a request\<close>

text \<open>
  C5 as specified: a stored status is always one of the four listed values, and a status
  changes only from pending. Neither holds. The answer route does not read the status that
  is stored: doctor 7 declines the request that doctor 7 accepted before. And it stores the
  status string of the body as it comes: a status that is none of the four is written.
\<close>

theorem accepted_request_declined_later:
  "map r_status (doctorRequests acceptedDb) = [''accepted'']
   \<and> map r_status (doctorRequests
         (step 3000 2 (PatchDoctorRequest doctor7 (Num 1) (answer ''declined'')) acceptedDb))
       = [''declined'']
   \<and> map r_status (doctorRequests pendingDb) = [''pending'']
   \<and> map r_status (doctorRequests
         (step 3000 2 (PatchDoctorRequest doctor7 (Num 1) (answer ''bogus'')) pendingDb))
       = [''bogus'']
   \<and> \<not> listedStatus ''bogus''"
  by (simp add: step_def patchDoctorRequest_def requireRole_def authenticated_def doctor7_def
        bindInt4_def toInt4_def getDoctorRequestById_def getDoctorByUserId_def acceptedDb_def
        pendingDb_def emptyDb_def updateDoctorRequest_patchData respondedRow_def answer_def
        request1_def listedStatus_def)

text \<open>
  C5, amended. A request enters the table in one way only: the create route, called with
  the patient role, stores it with status pending. The status of a stored request changes
  in one way only: the answer route, called with the doctor role by the doctor whose id is
  the \<open>doctorId\<close> of that request, writes the status of the body. That route does not look
  at the stored status: whatever it is, an answer of that doctor with one of the four listed
  values stores that value. No step removes a request. (The ids of the table are a key;
  every step keeps them so. Nothing is said here about an answer whose status is not one of
  the four listed values.)
\<close>

theorem status_written_only_by_addressed_doctor:
  assumes "distinct (map r_id (doctorRequests db))"
      and "k < length (doctorRequests (step now newId op db))"
  shows "length (doctorRequests db) \<le> length (doctorRequests (step now newId op db))
       \<and> (if k < length (doctorRequests db) then
            r_status (doctorRequests (step now newId op db) ! k) = r_status (doctorRequests db ! k)
            \<or> (\<exists>s i body uid.
                  op = PatchDoctorRequest s (Num i) body
                \<and> toInt4 i = Some (r_id (doctorRequests db ! k))
                \<and> role s = Some ''doctor'' \<and> userId s = Some uid
                \<and> (\<exists>doctor \<in> set (doctors db).
                      d_userId doctor = uid \<and> d_id doctor = r_doctorId (doctorRequests db ! k))
                \<and> ub_status body = Val (r_status (doctorRequests (step now newId op db) ! k)))
          else
            r_status (doctorRequests (step now newId op db) ! k) = ''pending''
            \<and> (\<exists>s body. op = PostDoctorRequest s body \<and> role s = Some ''patient''))
       \<and> (\<forall>s i body uid v.
             k < length (doctorRequests db)
           \<and> toInt4 i = Some (r_id (doctorRequests db ! k))
           \<and> requireRole ''doctor'' s = None \<and> userId s = Some uid
           \<and> (\<exists>doctor \<in> set (doctors db). d_userId doctor = uid)
           \<and> (\<forall>doctor \<in> set (doctors db).
                 d_userId doctor = uid \<longrightarrow> d_id doctor = r_doctorId (doctorRequests db ! k))
           \<and> ub_status body = Val v \<and> listedStatus v
           \<longrightarrow> r_status (doctorRequests
                   (step now newId (PatchDoctorRequest s (Num i) body) db) ! k) = v)"
proof -
  have A: "length (doctorRequests db) \<le> length (doctorRequests (step now newId op db))"
    using step_cases[of now newId op db] by auto
  have C: "\<forall>s i body uid v.
             k < length (doctorRequests db)
           \<and> toInt4 i = Some (r_id (doctorRequests db ! k))
           \<and> requireRole ''doctor'' s = None \<and> userId s = Some uid
           \<and> (\<exists>doctor \<in> set (doctors db). d_userId doctor = uid)
           \<and> (\<forall>doctor \<in> set (doctors db).
                 d_userId doctor = uid \<longrightarrow> d_id doctor = r_doctorId (doctorRequests db ! k))
           \<and> ub_status body = Val v \<and> listedStatus v
           \<longrightarrow> r_status (doctorRequests
                   (step now newId (PatchDoctorRequest s (Num i) body) db) ! k) = v"
  proof (intro allI impI, elim conjE)
    fix s :: Session and i :: int and body :: UpdateRequestBody and uid :: int4 and v :: string
    assume k: "k < length (doctorRequests db)"
      and i: "toInt4 i = Some (r_id (doctorRequests db ! k))"
      and r: "requireRole ''doctor'' s = None" and u: "userId s = Some uid"
      and e: "\<exists>doctor \<in> set (doctors db). d_userId doctor = uid"
      and a: "\<forall>doctor \<in> set (doctors db).
                d_userId doctor = uid \<longrightarrow> d_id doctor = r_doctorId (doctorRequests db ! k)"
      and v: "ub_status body = Val v"
    from v have n: "ub_status body \<noteq> Null" by simp
    from patch_by_addressed_doctor[OF assms(1) k i r u e a n, of now]
    show "r_status (doctorRequests (step now newId (PatchDoctorRequest s (Num i) body) db) ! k) = v"
      using k v by (simp add: step_def respondedRow_def)
  qed
  consider (same) "step now newId op db = db"
    | (patch) s i w body uid doctor existing where
        "op = PatchDoctorRequest s (Num i) body" "toInt4 i = Some w" "role s = Some ''doctor''"
        "userId s = Some uid" "getDoctorByUserId db uid = Some doctor"
        "getDoctorRequestById db w = Some existing" "r_doctorId existing = d_id doctor"
        "step now newId op db = db\<lparr>doctorRequests :=
           map (\<lambda>r. if r_id r = w then respondedRow now body r else r) (doctorRequests db)\<rparr>"
    | (post) s body request where
        "op = PostDoctorRequest s body" "role s = Some ''patient''"
        "r_status request = ''pending''"
        "step now newId op db = db\<lparr>doctorRequests := doctorRequests db @ [request]\<rparr>"
    using step_cases[of now newId op db] by blast
  then have B: "if k < length (doctorRequests db) then
            r_status (doctorRequests (step now newId op db) ! k) = r_status (doctorRequests db ! k)
            \<or> (\<exists>s i body uid.
                  op = PatchDoctorRequest s (Num i) body
                \<and> toInt4 i = Some (r_id (doctorRequests db ! k))
                \<and> role s = Some ''doctor'' \<and> userId s = Some uid
                \<and> (\<exists>doctor \<in> set (doctors db).
                      d_userId doctor = uid \<and> d_id doctor = r_doctorId (doctorRequests db ! k))
                \<and> ub_status body = Val (r_status (doctorRequests (step now newId op db) ! k)))
          else
            r_status (doctorRequests (step now newId op db) ! k) = ''pending''
            \<and> (\<exists>s body. op = PostDoctorRequest s body \<and> role s = Some ''patient'')"
  proof cases
    case same
    then show ?thesis using assms by simp
  next
    case patch
    from assms(2) have k: "k < length (doctorRequests db)" by (simp add: patch(8))
    show ?thesis
    proof (cases "r_id (doctorRequests db ! k) = w")
      case False
      then show ?thesis using k by (simp add: patch(8))
    next
      case True
      from find_distinct_nth[OF assms(1) k] True patch(6)
      have e: "existing = doctorRequests db ! k" by (simp add: getDoctorRequestById_def)
      from patch(5) have m: "doctor \<in> set (doctors db)" "d_userId doctor = uid"
        by (auto simp add: getDoctorByUserId_Some_iff)
      show ?thesis
      proof (cases "ub_status body")
        case (Val v)
        have nr: "r_status (doctorRequests (step now newId op db) ! k) = v"
          using k True Val by (simp add: patch(8) respondedRow_def)
        have ex: "\<exists>doctor \<in> set (doctors db).
                d_userId doctor = uid \<and> d_id doctor = r_doctorId (doctorRequests db ! k)"
          using m patch(7) e by auto
        have f: "\<exists>s i body uid.
                  op = PatchDoctorRequest s (Num i) body
                \<and> toInt4 i = Some (r_id (doctorRequests db ! k))
                \<and> role s = Some ''doctor'' \<and> userId s = Some uid
                \<and> (\<exists>doctor \<in> set (doctors db).
                      d_userId doctor = uid \<and> d_id doctor = r_doctorId (doctorRequests db ! k))
                \<and> ub_status body = Val (r_status (doctorRequests (step now newId op db) ! k))"
          unfolding nr using patch(1-4) True ex Val by blast
        show ?thesis unfolding if_P[OF k] by (rule disjI2) (fact f)
      next
        case Undefined
        then show ?thesis using k True by (simp add: patch(8) respondedRow_def)
      next
        case Null
        then show ?thesis using k True by (simp add: patch(8) respondedRow_def)
      qed
    qed
  next
    case post
    then show ?thesis using assms by (auto simp add: nth_append)
  qed
  from A B C show ?thesis by blast
qed

theorem status_written_only_by_addressed_doctor_witness:
  "distinct (map r_id (doctorRequests acceptedDb))
   \<and> (0::nat) < length (doctorRequests
         (step 3000 2 (PatchDoctorRequest doctor7 (Num 1) (answer ''declined'')) acceptedDb))
   \<and> (0::nat) < length (doctorRequests acceptedDb)
   \<and> toInt4 1 = Some (r_id (doctorRequests acceptedDb ! 0))
   \<and> requireRole ''doctor'' doctor7 = None
   \<and> userId doctor7 = Some 70
   \<and> doctors acceptedDb = [\<lparr>d_id = 7, d_userId = 70\<rparr>, \<lparr>d_id = 8, d_userId = 80\<rparr>]
   \<and> r_doctorId (doctorRequests acceptedDb ! 0) = 7
   \<and> ub_status (answer ''declined'') = Val ''declined''
   \<and> listedStatus ''declined''
   \<and> r_status (doctorRequests acceptedDb ! 0) = ''accepted''
   \<and> r_status (doctorRequests
         (step 3000 2 (PatchDoctorRequest doctor7 (Num 1) (answer ''declined'')) acceptedDb) ! 0)
       = ''declined''
   \<and> \<not> (0::nat) < length (doctorRequests emptyDb)
   \<and> r_status (doctorRequests (step 1000 1 (PostDoctorRequest patient3 askDoctor7) emptyDb) ! 0)
       = ''pending''"
proof -
  have pst: "step 1000 1 (PostDoctorRequest patient3 askDoctor7) emptyDb = pendingDb"
    by (simp add: step_def pendingDb_reached)
  have pd: "distinct (map r_id (doctorRequests emptyDb))" by (simp add: emptyDb_def)
  have pl: "(0::nat) < length (doctorRequests
              (step 1000 1 (PostDoctorRequest patient3 askDoctor7) emptyDb))"
    unfolding pst by (simp add: pendingDb_def)
  have pe: "\<not> (0::nat) < length (doctorRequests emptyDb)" by (simp add: emptyDb_def)
  from status_written_only_by_addressed_doctor[OF pd pl] pe
  have pp: "r_status (doctorRequests (step 1000 1 (PostDoctorRequest patient3 askDoctor7) emptyDb) ! 0)
       = ''pending''" by simp
  have d: "distinct (map r_id (doctorRequests acceptedDb))" by (simp add: acceptedDb_def)
  have l0: "(0::nat) < length (doctorRequests acceptedDb)" by (simp add: acceptedDb_def)
  have t: "toInt4 1 = Some (r_id (doctorRequests acceptedDb ! 0))"
    by (simp add: toInt4_def acceptedDb_def request1_def)
  have r: "requireRole ''doctor'' doctor7 = None"
    by (simp add: requireRole_def authenticated_def doctor7_def)
  have u: "userId doctor7 = Some 70" by (simp add: doctor7_def)
  have e: "\<exists>doctor \<in> set (doctors acceptedDb). d_userId doctor = 70"
    by (simp add: acceptedDb_def emptyDb_def)
  have a: "\<forall>doctor \<in> set (doctors acceptedDb).
         d_userId doctor = 70 \<longrightarrow> d_id doctor = r_doctorId (doctorRequests acceptedDb ! 0)"
    by (simp add: acceptedDb_def emptyDb_def request1_def)
  have b: "ub_status (answer ''declined'') = Val ''declined''" by (simp add: answer_def)
  have v: "listedStatus ''declined''" by (simp add: listedStatus_def)
  have o: "r_status (doctorRequests acceptedDb ! 0) = ''accepted''"
    by (simp add: acceptedDb_def request1_def)
  from step_cases[of 3000 2 "PatchDoctorRequest doctor7 (Num 1) (answer ''declined'')" acceptedDb]
  have l: "(0::nat) < length (doctorRequests
         (step 3000 2 (PatchDoctorRequest doctor7 (Num 1) (answer ''declined'')) acceptedDb))"
    using l0 by auto
  from status_written_only_by_addressed_doctor[OF d l] l0 t r u e a b v
  have c: "r_status (doctorRequests
         (step 3000 2 (PatchDoctorRequest doctor7 (Num 1) (answer ''declined'')) acceptedDb) ! 0)
       = ''declined''" by blast
  have ds: "doctors acceptedDb = [\<lparr>d_id = 7, d_userId = 70\<rparr>, \<lparr>d_id = 8, d_userId = 80\<rparr>]"
    by (simp add: acceptedDb_def emptyDb_def)
  have rd: "r_doctorId (doctorRequests acceptedDb ! 0) = 7"
    by (simp add: acceptedDb_def request1_def)
  from d l l0 t r u ds rd b v o c pe pp show ?thesis by blast
qed


end
